theory Spec2Isabelle
  imports Main "HOL-Library.Word"
begin

section \<open>The collaborators of presence-widget.c\<close>

text \<open>
  The file \<^verbatim>\<open>docs/examples/gtk_presence_app/presence-widget.c\<close> is a GTK widget over a
  Telepathy account. What it calls in GLib, GTK and telepathy-glib is modelled here by the
  state these calls read and by a log of the calls it makes; every handler of the file is
  a function from the widget's world to the widget's world.
\<close>

type_synonym guint = "32 word"

text \<open>A \<^verbatim>\<open>gint\<close> is a 32-bit two's complement integer: \<open>sint\<close> reads it, \<open>+\<close> wraps.\<close>

type_synonym gint = "32 word"

text \<open>The address of a reference-counted object (a \<^verbatim>\<open>TpAccount\<close>, a \<^verbatim>\<open>GHashTable\<close>).\<close>

type_synonym ref = nat

text \<open>
  \<^verbatim>\<open>TpConnectionPresenceType\<close> of telepathy-glib: nine values, numbered from 0 in this
  order, and \<^verbatim>\<open>NUM_TP_CONNECTION_PRESENCE_TYPES\<close> counts them.
\<close>

datatype TpConnectionPresenceType =
    PRESENCE_TYPE_UNSET
  | PRESENCE_TYPE_OFFLINE
  | PRESENCE_TYPE_AVAILABLE
  | PRESENCE_TYPE_AWAY
  | PRESENCE_TYPE_EXTENDED_AWAY
  | PRESENCE_TYPE_HIDDEN
  | PRESENCE_TYPE_BUSY
  | PRESENCE_TYPE_UNKNOWN
  | PRESENCE_TYPE_ERROR

fun presence_index :: "TpConnectionPresenceType \<Rightarrow> nat" where
  "presence_index PRESENCE_TYPE_UNSET = 0"
| "presence_index PRESENCE_TYPE_OFFLINE = 1"
| "presence_index PRESENCE_TYPE_AVAILABLE = 2"
| "presence_index PRESENCE_TYPE_AWAY = 3"
| "presence_index PRESENCE_TYPE_EXTENDED_AWAY = 4"
| "presence_index PRESENCE_TYPE_HIDDEN = 5"
| "presence_index PRESENCE_TYPE_BUSY = 6"
| "presence_index PRESENCE_TYPE_UNKNOWN = 7"
| "presence_index PRESENCE_TYPE_ERROR = 8"

text \<open>
  Modelled from the spec: the macro \<^verbatim>\<open>NUM_TP_CONNECTION_PRESENCE_TYPES\<close> belongs to
  telepathy-glib and is not in the file; the spec counts nine presence kinds, and both
  tables of the file have nine initialisers.
\<close>

definition NUM_TP_CONNECTION_PRESENCE_TYPES :: nat where
  "NUM_TP_CONNECTION_PRESENCE_TYPES = 9"

text \<open>
  \<^verbatim>\<open>TpConnectionStatus\<close> of telepathy-glib, passed to the handlers as a \<^verbatim>\<open>guint\<close>:
  connected is 0, connecting is 1, disconnected is 2.
\<close>

definition TP_CONNECTION_STATUS_CONNECTED :: guint where
  "TP_CONNECTION_STATUS_CONNECTED = 0"

definition TP_CONNECTION_STATUS_CONNECTING :: guint where
  "TP_CONNECTION_STATUS_CONNECTING = 1"

definition TP_CONNECTION_STATUS_DISCONNECTED :: guint where
  "TP_CONNECTION_STATUS_DISCONNECTED = 2"

definition TP_IFACE_CONNECTION_INTERFACE_SIMPLE_PRESENCE :: string where
  "TP_IFACE_CONNECTION_INTERFACE_SIMPLE_PRESENCE =
     ''org.freedesktop.Telepathy.Connection.Interface.SimplePresence''"

text \<open>A connection proxy: its address and the interfaces it has once it is ready.\<close>

record TpConnection =
  conn_ref :: ref
  conn_interfaces :: "string list"

definition tp_proxy_has_interface :: "TpConnection \<Rightarrow> string \<Rightarrow> bool" where
  "tp_proxy_has_interface conn iface = (iface \<in> set (conn_interfaces conn))"

text \<open>
  The account object as its getters show it at the moment a handler runs. The fields are
  named after the getters the file calls.
\<close>

record TpAccount =
  tp_account_is_enabled :: bool
  tp_account_get_display_name :: string
  tp_account_get_presence :: TpConnectionPresenceType
  tp_account_get_status_message :: string
  tp_account_get_connection_status :: guint
  tp_account_get_connection :: "TpConnection option"

text \<open>A \<^verbatim>\<open>GError\<close>; a \<^verbatim>\<open>const GError *\<close> is an option of it, \<open>None\<close> being NULL.\<close>

record GError =
  message :: string

text \<open>
  A \<^verbatim>\<open>GValue\<close> as the reply of a D-Bus \<^verbatim>\<open>Properties.Get\<close> carries it: it holds a boxed
  simple-status-spec map (the address of a hash table), or a value of another type.
\<close>

datatype GValue =
    Holds_simple_status_spec_map ref
  | Holds_other_type

fun G_VALUE_HOLDS_SIMPLE_STATUS_SPEC_MAP :: "GValue option \<Rightarrow> bool" where
  "G_VALUE_HOLDS_SIMPLE_STATUS_SPEC_MAP (Some (Holds_simple_status_spec_map t)) = True"
| "G_VALUE_HOLDS_SIMPLE_STATUS_SPEC_MAP _ = False"

fun g_value_get_boxed :: "GValue option \<Rightarrow> ref option" where
  "g_value_get_boxed (Some (Holds_simple_status_spec_map t)) = Some t"
| "g_value_get_boxed _ = None"

text \<open>The widgets the instance initialiser creates.\<close>

datatype GtkWidget = Check_button | Table | Image | Label

text \<open>What the toolkit holds for a widget: the state the file writes and reads.\<close>

record widget_state =
  active :: bool
  button_label :: "string option"
  icon_name :: "string option"
  label_text :: "string option"

text \<open>The handlers of the file, as callbacks given to the libraries.\<close>

datatype callback =
    CB_notify_enabled
  | CB_notify_display_name
  | CB_notify_presence
  | CB_notify_status_message
  | CB_status_changed
  | CB_account_removed
  | CB_enabled_toggled
  | CB_connection_ready
  | CB_get_property_statuses

datatype signal_source = Account_object "ref option" | Widget_object "GtkWidget option"

text \<open>The calls the file makes into its collaborators that leave the widget.\<close>

datatype effect =
    G_signal_connect_swapped signal_source string callback
  | G_object_ref ref
  | G_object_unref "ref option"
  | G_hash_table_ref "ref option"
  | G_hash_table_unref ref
  | Tp_account_set_enabled_async "ref option" bool
  | Tp_connection_call_when_ready TpConnection callback
  | Tp_cli_dbus_properties_call_get TpConnection string string callback
  | G_warning string
  | G_return_if_fail_critical
  | G_object_warn_invalid_property_id guint
  | Gtk_widget_destroy
  | Parent_class_dispose

section \<open>The widget\<close>

text \<open>\<^verbatim>\<open>struct _PresenceWidgetPrivate\<close>, a pointer being an option (\<open>None\<close> is NULL).\<close>

record PresenceWidgetPrivate =
  account :: "ref option"
  statuses :: "ref option"
  enabled_check :: "GtkWidget option"
  status_icon :: "GtkWidget option"
  status_message :: "GtkWidget option"
  updating_ui_lock :: gint

record world =
  priv :: PresenceWidgetPrivate
  widgets :: "GtkWidget \<Rightarrow> widget_state"
  effects :: "effect list"

definition emit :: "effect \<Rightarrow> world \<Rightarrow> world" where
  "emit e s = s\<lparr>effects := effects s @ [e]\<rparr>"

definition PROP_0 :: guint where
  "PROP_0 = 0"

definition PROP_ACCOUNT :: guint where
  "PROP_ACCOUNT = 1"

subsection \<open>The static tables\<close>

text \<open>
  Both arrays have \<^verbatim>\<open>NUM_TP_CONNECTION_PRESENCE_TYPES\<close> elements of type
  \<^verbatim>\<open>const char *\<close>; an element is \<open>Some\<close> string, or \<open>None\<close> for a NULL pointer.
\<close>

definition presence_icons :: "string option list" where
  "presence_icons =
     [Some ''empathy-offline'',
      Some ''empathy-offline'',
      Some ''empathy-available'',
      Some ''empathy-away'',
      Some ''empathy-extended-away'',
      Some ''empathy-offline'',
      Some ''empathy-busy'',
      Some ''empathy-offline'',
      Some ''empathy-offline'']"

definition default_messages :: "string option list" where
  "default_messages =
     [Some ''Unset'',
      Some ''Offline'',
      Some ''Available'',
      Some ''Away'',
      Some ''Extended Away'',
      Some ''Hidden'',
      Some ''Busy'',
      Some ''Unknown'',
      Some ''Error'']"

subsection \<open>The toolkit calls on the three widgets\<close>

text \<open>
  A setter called on a NULL widget fails the toolkit's type check and returns; on a
  widget it updates the widget's state.
\<close>

definition gtk_button_set_label :: "world \<Rightarrow> GtkWidget option \<Rightarrow> string option \<Rightarrow> world" where
  "gtk_button_set_label s w l =
     (case w of
        None \<Rightarrow> s
      | Some b \<Rightarrow> s\<lparr>widgets := (widgets s)(b := (widgets s b)\<lparr>button_label := l\<rparr>)\<rparr>)"

definition gtk_image_set_from_icon_name :: "world \<Rightarrow> GtkWidget option \<Rightarrow> string option \<Rightarrow> world" where
  "gtk_image_set_from_icon_name s w n =
     (case w of
        None \<Rightarrow> s
      | Some i \<Rightarrow> s\<lparr>widgets := (widgets s)(i := (widgets s i)\<lparr>icon_name := n\<rparr>)\<rparr>)"

definition gtk_label_set_text :: "world \<Rightarrow> GtkWidget option \<Rightarrow> string option \<Rightarrow> world" where
  "gtk_label_set_text s w t =
     (case w of
        None \<Rightarrow> s
      | Some l \<Rightarrow> s\<lparr>widgets := (widgets s)(l := (widgets s l)\<lparr>label_text := t\<rparr>)\<rparr>)"

definition gtk_toggle_button_get_active :: "world \<Rightarrow> GtkWidget option \<Rightarrow> bool" where
  "gtk_toggle_button_get_active s w =
     (case w of None \<Rightarrow> False | Some b \<Rightarrow> active (widgets s b))"

subsection \<open>The toggle handler and the write into the toggle\<close>

text \<open>\<^verbatim>\<open>_enabled_toggled\<close> (lines 295 to 306).\<close>

definition enabled_toggled :: "world \<Rightarrow> GtkWidget option \<Rightarrow> world" where
  "enabled_toggled s button =
     (if 0 < sint (updating_ui_lock (priv s)) then s
      else emit (Tp_account_set_enabled_async (account (priv s))
                   (gtk_toggle_button_get_active s button)) s)"

text \<open>
  \<^verbatim>\<open>gtk_toggle_button_set_active\<close>: the toolkit stores the value and may deliver the
  "toggled" signal before it returns; the instance initialiser connects
  \<^verbatim>\<open>_enabled_toggled\<close> to that signal of the check button. Whether the signal is delivered
  is the toolkit's choice, a parameter here: \<open>fires old new\<close>. GTK delivers it when the
  value changes, \<open>fires old new = (old \<noteq> new)\<close>.
\<close>

definition gtk_toggle_button_set_active ::
    "(bool \<Rightarrow> bool \<Rightarrow> bool) \<Rightarrow> world \<Rightarrow> GtkWidget option \<Rightarrow> bool \<Rightarrow> world" where
  "gtk_toggle_button_set_active fires s w is_active =
     (case w of
        None \<Rightarrow> s
      | Some b \<Rightarrow>
          (let old = active (widgets s b);
               s' = s\<lparr>widgets := (widgets s)(b := (widgets s b)\<lparr>active := is_active\<rparr>)\<rparr>
           in if fires old is_active then enabled_toggled s' (Some b) else s'))"

text \<open>A click of the user on the check button: the toolkit flips it and delivers "toggled".\<close>

definition user_click :: "world \<Rightarrow> world" where
  "user_click s =
     (case enabled_check (priv s) of
        None \<Rightarrow> s
      | Some b \<Rightarrow>
          enabled_toggled
            (s\<lparr>widgets := (widgets s)(b := (widgets s b)\<lparr>active := \<not> active (widgets s b)\<rparr>)\<rparr>)
            (Some b))"

subsection \<open>Property access\<close>

text \<open>\<^verbatim>\<open>presence_widget_get_property\<close> (lines 65 to 83): the value read, and the world.\<close>

definition presence_widget_get_property :: "world \<Rightarrow> guint \<Rightarrow> ref option \<times> world" where
  "presence_widget_get_property s prop_id =
     (if prop_id = PROP_ACCOUNT then (account (priv s), s)
      else (None, emit (G_object_warn_invalid_property_id prop_id) s))"

text \<open>
  \<^verbatim>\<open>presence_widget_set_property\<close> (lines 85 to 103); \<^verbatim>\<open>g_value_dup_object\<close> takes a
  reference on the object the value holds.
\<close>

definition presence_widget_set_property :: "world \<Rightarrow> guint \<Rightarrow> ref option \<Rightarrow> world" where
  "presence_widget_set_property s prop_id v =
     (if prop_id = PROP_ACCOUNT then
        (let s' = (case v of None \<Rightarrow> s | Some r \<Rightarrow> emit (G_object_ref r) s)
         in s'\<lparr>priv := (priv s')\<lparr>account := v\<rparr>\<rparr>)
      else emit (G_object_warn_invalid_property_id prop_id) s)"

subsection \<open>The field-sync handlers\<close>

text \<open>
  \<^verbatim>\<open>_notify_enabled\<close> (lines 105 to 116). The guard is a \<^verbatim>\<open>gint\<close>: the increment is
  written as the wrap-around of the machine, which C leaves undefined at the largest
  value; a widget never gets there, its guard being zero whenever a handler starts.
\<close>

definition notify_enabled :: "(bool \<Rightarrow> bool \<Rightarrow> bool) \<Rightarrow> world \<Rightarrow> TpAccount \<Rightarrow> world" where
  "notify_enabled fires s acct =
     (let s1 = s\<lparr>priv := (priv s)\<lparr>updating_ui_lock := updating_ui_lock (priv s) + 1\<rparr>\<rparr>;
          s2 = gtk_toggle_button_set_active fires s1 (enabled_check (priv s1))
                 (tp_account_is_enabled acct)
      in s2\<lparr>priv := (priv s2)\<lparr>updating_ui_lock := updating_ui_lock (priv s2) - 1\<rparr>\<rparr>)"

text \<open>\<^verbatim>\<open>_notify_display_name\<close> (lines 118 to 127).\<close>

definition notify_display_name :: "world \<Rightarrow> TpAccount \<Rightarrow> world" where
  "notify_display_name s acct =
     gtk_button_set_label s (enabled_check (priv s)) (Some (tp_account_get_display_name acct))"

text \<open>\<^verbatim>\<open>_notify_presence\<close> (lines 129 to 141).\<close>

definition notify_presence :: "world \<Rightarrow> TpAccount \<Rightarrow> world" where
  "notify_presence s acct =
     (let presence = tp_account_get_presence acct;
          icon = presence_icons ! presence_index presence
      in gtk_image_set_from_icon_name s (status_icon (priv s)) icon)"

text \<open>\<^verbatim>\<open>_notify_status_message\<close> (lines 143 to 158).\<close>

definition notify_status_message :: "world \<Rightarrow> TpAccount \<Rightarrow> world" where
  "notify_status_message s acct =
     (let msg = Some (tp_account_get_status_message acct);
          msg' = (if length (tp_account_get_status_message acct) = 0
                  then (let presence = tp_account_get_presence acct
                        in default_messages ! presence_index presence)
                  else msg)
      in gtk_label_set_text s (status_message (priv s)) msg')"

subsection \<open>The capability probe\<close>

text \<open>
  \<^verbatim>\<open>_get_property_statuses\<close> (lines 160 to 181). The reply of the fetch is a value
  holding the status-spec map, with no error, or an error; a value that does not hold the
  map fails the \<^verbatim>\<open>g_return_if_fail\<close> of line 175, which logs and returns.
\<close>

definition get_property_statuses ::
    "world \<Rightarrow> TpConnection \<Rightarrow> GValue option \<Rightarrow> GError option \<Rightarrow> world" where
  "get_property_statuses s conn v error =
     (case error of
        Some e \<Rightarrow> emit (G_warning (message e)) s
      | None \<Rightarrow>
          if \<not> G_VALUE_HOLDS_SIMPLE_STATUS_SPEC_MAP v then emit G_return_if_fail_critical s
          else
            (let s1 = (case statuses (priv s) of
                         None \<Rightarrow> s
                       | Some old \<Rightarrow> emit (G_hash_table_unref old) s);
                 s2 = emit (G_hash_table_ref (g_value_get_boxed v)) s1
             in s2\<lparr>priv := (priv s2)\<lparr>statuses := g_value_get_boxed v\<rparr>\<rparr>))"

text \<open>\<^verbatim>\<open>_connection_ready\<close> (lines 183 to 207).\<close>

definition connection_ready :: "world \<Rightarrow> TpConnection \<Rightarrow> GError option \<Rightarrow> world" where
  "connection_ready s conn error =
     (case error of
        Some e \<Rightarrow> emit (G_warning (message e)) s
      | None \<Rightarrow>
          if tp_proxy_has_interface conn TP_IFACE_CONNECTION_INTERFACE_SIMPLE_PRESENCE
          then emit (Tp_cli_dbus_properties_call_get conn
                       TP_IFACE_CONNECTION_INTERFACE_SIMPLE_PRESENCE ''Statuses''
                       CB_get_property_statuses) s
          else s)"

text \<open>\<^verbatim>\<open>_status_changed\<close> (lines 209 to 224).\<close>

definition status_changed :: "world \<Rightarrow> guint \<Rightarrow> guint \<Rightarrow> guint \<Rightarrow> TpAccount \<Rightarrow> world" where
  "status_changed s old_status new_status reason acct =
     (case tp_account_get_connection acct of
        None \<Rightarrow> s
      | Some conn \<Rightarrow>
          if new_status = TP_CONNECTION_STATUS_CONNECTED \<or>
             new_status = TP_CONNECTION_STATUS_DISCONNECTED
          then emit (Tp_connection_call_when_ready conn CB_connection_ready) s
          else s)"

text \<open>\<^verbatim>\<open>_account_removed\<close> (lines 226 to 232).\<close>

definition account_removed :: "world \<Rightarrow> TpAccount \<Rightarrow> world" where
  "account_removed s acct = emit Gtk_widget_destroy s"

subsection \<open>Construction and disposal\<close>

text \<open>
  \<^verbatim>\<open>presence_widget_init\<close> (lines 308 to 335), run on the zeroed private structure of a new
  instance: the check button, the image and the label are created, the label with an
  empty text, and \<^verbatim>\<open>_enabled_toggled\<close> is connected to the check button.
\<close>

definition blank_widget :: widget_state where
  "blank_widget = \<lparr>active = False, button_label = None, icon_name = None, label_text = None\<rparr>"

definition new_instance :: world where
  "new_instance =
     \<lparr>priv = \<lparr>account = None, statuses = None, enabled_check = None, status_icon = None,
              status_message = None, updating_ui_lock = 0\<rparr>,
      widgets = (\<lambda>w. blank_widget),
      effects = []\<rparr>"

definition presence_widget_init :: "world \<Rightarrow> world" where
  "presence_widget_init s =
     (let s1 = s\<lparr>priv := (priv s)\<lparr>enabled_check := Some Check_button\<rparr>\<rparr>;
          s2 = emit (G_signal_connect_swapped (Widget_object (enabled_check (priv s1)))
                       ''toggled'' CB_enabled_toggled) s1;
          s3 = s2\<lparr>priv := (priv s2)\<lparr>status_icon := Some Image\<rparr>\<rparr>;
          s4 = s3\<lparr>priv := (priv s3)\<lparr>status_message := Some Label\<rparr>,
                  widgets := (widgets s3)(Label := (widgets s3 Label)\<lparr>label_text := Some []\<rparr>)\<rparr>
      in s4)"

text \<open>
  \<^verbatim>\<open>presence_widget_constructed\<close> (lines 234 to 261); \<open>acct\<close> is the object that
  \<^verbatim>\<open>priv->account\<close> points to.
\<close>

definition presence_widget_constructed ::
    "(bool \<Rightarrow> bool \<Rightarrow> bool) \<Rightarrow> world \<Rightarrow> TpAccount \<Rightarrow> world" where
  "presence_widget_constructed fires s acct =
     (let src = Account_object (account (priv s));
          s1 = emit (G_signal_connect_swapped src ''notify::enabled'' CB_notify_enabled) s;
          s2 = emit (G_signal_connect_swapped src ''notify::display-name''
                       CB_notify_display_name) s1;
          s3 = emit (G_signal_connect_swapped src ''notify::presence'' CB_notify_presence) s2;
          s4 = emit (G_signal_connect_swapped src ''notify::status-message''
                       CB_notify_status_message) s3;
          s5 = emit (G_signal_connect_swapped src ''status-changed'' CB_status_changed) s4;
          s6 = emit (G_signal_connect_swapped src ''removed'' CB_account_removed) s5;
          s7 = notify_enabled fires s6 acct;
          s8 = notify_display_name s7 acct;
          s9 = notify_presence s8 acct;
          s10 = notify_status_message s9 acct
      in status_changed s10 0 (tp_account_get_connection_status acct) 0 acct)"

text \<open>\<^verbatim>\<open>presence_widget_dispose\<close> (lines 263 to 272).\<close>

definition presence_widget_dispose :: "world \<Rightarrow> world" where
  "presence_widget_dispose s =
     (let s1 = emit (G_object_unref (account (priv s))) s;
          s2 = s1\<lparr>priv := (priv s1)\<lparr>account := None\<rparr>\<rparr>
      in emit Parent_class_dispose s2)"

text \<open>
  \<^verbatim>\<open>presence_widget_new\<close> (lines 337 to 345). The heap tells which addresses hold a
  \<^verbatim>\<open>TpAccount\<close>, so \<^verbatim>\<open>TP_IS_ACCOUNT\<close> is false on NULL and on any other object. When the
  check fails the function returns NULL and no instance is made; otherwise
  \<^verbatim>\<open>g_object_new\<close> runs the instance initialiser, sets the construct-only property and
  calls \<^verbatim>\<open>constructed\<close>.
\<close>

definition TP_IS_ACCOUNT :: "(ref \<Rightarrow> TpAccount option) \<Rightarrow> ref option \<Rightarrow> bool" where
  "TP_IS_ACCOUNT heap p = (case p of None \<Rightarrow> False | Some r \<Rightarrow> heap r \<noteq> None)"

definition g_object_new_presence_widget ::
    "(bool \<Rightarrow> bool \<Rightarrow> bool) \<Rightarrow> ref \<Rightarrow> TpAccount \<Rightarrow> world" where
  "g_object_new_presence_widget fires r acct =
     presence_widget_constructed fires
       (presence_widget_set_property (presence_widget_init new_instance) PROP_ACCOUNT (Some r))
       acct"

definition presence_widget_new ::
    "(bool \<Rightarrow> bool \<Rightarrow> bool) \<Rightarrow> (ref \<Rightarrow> TpAccount option) \<Rightarrow> ref option \<Rightarrow> world option" where
  "presence_widget_new fires heap p =
     (if \<not> TP_IS_ACCOUNT heap p then None
      else (case p of
              None \<Rightarrow> None
            | Some r \<Rightarrow>
                (case heap r of
                   None \<Rightarrow> None
                 | Some acct \<Rightarrow> Some (g_object_new_presence_widget fires r acct))))"

subsection \<open>The life of a widget\<close>

text \<open>
  After construction the main loop calls the handlers, one at a time: on a signal of the
  account, on a click of the user, on the completion of an asynchronous call, and on
  disposal.
\<close>

datatype event =
    Ev_notify_enabled TpAccount
  | Ev_notify_display_name TpAccount
  | Ev_notify_presence TpAccount
  | Ev_notify_status_message TpAccount
  | Ev_status_changed guint guint guint TpAccount
  | Ev_removed TpAccount
  | Ev_user_click
  | Ev_connection_ready TpConnection "GError option"
  | Ev_get_property_statuses TpConnection "GValue option" "GError option"
  | Ev_dispose

fun dispatch :: "(bool \<Rightarrow> bool \<Rightarrow> bool) \<Rightarrow> world \<Rightarrow> event \<Rightarrow> world" where
  "dispatch fires s (Ev_notify_enabled a) = notify_enabled fires s a"
| "dispatch fires s (Ev_notify_display_name a) = notify_display_name s a"
| "dispatch fires s (Ev_notify_presence a) = notify_presence s a"
| "dispatch fires s (Ev_notify_status_message a) = notify_status_message s a"
| "dispatch fires s (Ev_status_changed old new reason a) = status_changed s old new reason a"
| "dispatch fires s (Ev_removed a) = account_removed s a"
| "dispatch fires s Ev_user_click = user_click s"
| "dispatch fires s (Ev_connection_ready c e) = connection_ready s c e"
| "dispatch fires s (Ev_get_property_statuses c v e) = get_property_statuses s c v e"
| "dispatch fires s Ev_dispose = presence_widget_dispose s"

definition run :: "(bool \<Rightarrow> bool \<Rightarrow> bool) \<Rightarrow> world \<Rightarrow> event list \<Rightarrow> world" where
  "run fires s evs = foldl (dispatch fires) s evs"

text \<open>The requests to change the account's enabled flag among the calls made.\<close>

fun is_set_enabled :: "effect \<Rightarrow> bool" where
  "is_set_enabled (Tp_account_set_enabled_async a b) = True"
| "is_set_enabled _ = False"

definition set_enabled_requests :: "world \<Rightarrow> effect list" where
  "set_enabled_requests s = filter is_set_enabled (effects s)"

subsection \<open>Values used to state and to evaluate the properties\<close>

text \<open>The toolkit's own choice: GTK delivers "toggled" when the value changes.\<close>

definition gtk_fires :: "bool \<Rightarrow> bool \<Rightarrow> bool" where
  "gtk_fires old new = (old \<noteq> new)"

text \<open>A connection, an account and a heap on which the handlers are evaluated.\<close>

definition example_connection :: TpConnection where
  "example_connection =
     \<lparr>conn_ref = 5, conn_interfaces = [TP_IFACE_CONNECTION_INTERFACE_SIMPLE_PRESENCE]\<rparr>"

definition example_account :: TpAccount where
  "example_account =
     \<lparr>tp_account_is_enabled = True,
      tp_account_get_display_name = ''alice'',
      tp_account_get_presence = PRESENCE_TYPE_AWAY,
      tp_account_get_status_message = [],
      tp_account_get_connection_status = TP_CONNECTION_STATUS_CONNECTED,
      tp_account_get_connection = Some example_connection\<rparr>"

definition example_heap :: "ref \<Rightarrow> TpAccount option" where
  "example_heap r = (if r = 1 then Some example_account else None)"

text \<open>
  The readiness request that \<^verbatim>\<open>_status_changed\<close> makes when it is called with the
  account's own connection status.
\<close>

definition probe_request :: "TpAccount \<Rightarrow> effect list" where
  "probe_request a =
     (case tp_account_get_connection a of
        None \<Rightarrow> []
      | Some conn \<Rightarrow>
          if tp_account_get_connection_status a = TP_CONNECTION_STATUS_CONNECTED \<or>
             tp_account_get_connection_status a = TP_CONNECTION_STATUS_DISCONNECTED
          then [Tp_connection_call_when_ready conn CB_connection_ready]
          else [])"

text \<open>The text that \<^verbatim>\<open>_notify_status_message\<close> gives to the label.\<close>

definition displayed_message :: "TpAccount \<Rightarrow> string option" where
  "displayed_message a =
     (if tp_account_get_status_message a = []
      then default_messages ! presence_index (tp_account_get_presence a)
      else Some (tp_account_get_status_message a))"

text \<open>The six connections that \<^verbatim>\<open>presence_widget_constructed\<close> makes, in its order.\<close>

definition account_signals :: "ref option \<Rightarrow> effect list" where
  "account_signals p =
     [G_signal_connect_swapped (Account_object p) ''notify::enabled'' CB_notify_enabled,
      G_signal_connect_swapped (Account_object p) ''notify::display-name'' CB_notify_display_name,
      G_signal_connect_swapped (Account_object p) ''notify::presence'' CB_notify_presence,
      G_signal_connect_swapped (Account_object p) ''notify::status-message''
        CB_notify_status_message,
      G_signal_connect_swapped (Account_object p) ''status-changed'' CB_status_changed,
      G_signal_connect_swapped (Account_object p) ''removed'' CB_account_removed]"

text \<open>
  The instance when \<^verbatim>\<open>constructed\<close> is called: initialised, the account property set.
\<close>

definition before_constructed :: "ref \<Rightarrow> world" where
  "before_constructed r =
     \<lparr>priv = \<lparr>account = Some r, statuses = None, enabled_check = Some Check_button,
              status_icon = Some Image, status_message = Some Label, updating_ui_lock = 0\<rparr>,
      widgets = (\<lambda>w. blank_widget)(Label := blank_widget\<lparr>label_text := Some []\<rparr>),
      effects = [G_signal_connect_swapped (Widget_object (Some Check_button)) ''toggled''
                   CB_enabled_toggled,
                 G_object_ref r]\<rparr>"

text \<open>A widget that has fetched and kept the status map at address 7.\<close>

definition example_cached :: world where
  "example_cached =
     get_property_statuses (before_constructed 1) example_connection
       (Some (Holds_simple_status_spec_map 7)) None"

section \<open>What the handlers keep\<close>

lemma emit_simps:
  "priv (emit e s) = priv s" "widgets (emit e s) = widgets s"
  "effects (emit e s) = effects s @ [e]"
  by (simp_all add: emit_def)

lemma enabled_toggled_priv: "priv (enabled_toggled s w) = priv s"
  by (simp add: enabled_toggled_def emit_simps)

lemma enabled_toggled_locked:
  "0 < sint (updating_ui_lock (priv s)) \<Longrightarrow> enabled_toggled s w = s"
  by (simp add: enabled_toggled_def)

lemma set_active_priv: "priv (gtk_toggle_button_set_active fires s w b) = priv s"
  by (simp add: gtk_toggle_button_set_active_def Let_def enabled_toggled_priv split: option.splits)

lemma set_active_locked_effects:
  "0 < sint (updating_ui_lock (priv s)) \<Longrightarrow>
   effects (gtk_toggle_button_set_active fires s w b) = effects s"
  by (simp add: gtk_toggle_button_set_active_def Let_def enabled_toggled_locked split: option.splits)

lemma notify_enabled_lock:
  "updating_ui_lock (priv (notify_enabled fires s a)) = updating_ui_lock (priv s)"
  by (simp add: notify_enabled_def Let_def set_active_priv)

lemma notify_display_name_priv: "priv (notify_display_name s a) = priv s"
  by (simp add: notify_display_name_def gtk_button_set_label_def split: option.splits)

lemma notify_presence_priv: "priv (notify_presence s a) = priv s"
  by (simp add: notify_presence_def gtk_image_set_from_icon_name_def Let_def split: option.splits)

lemma notify_status_message_priv: "priv (notify_status_message s a) = priv s"
  by (simp add: notify_status_message_def gtk_label_set_text_def Let_def split: option.splits)

lemma status_changed_priv: "priv (status_changed s old new reason a) = priv s"
  by (simp add: status_changed_def emit_simps split: option.splits)

lemma account_removed_priv: "priv (account_removed s a) = priv s"
  by (simp add: account_removed_def emit_simps)

lemma user_click_priv: "priv (user_click s) = priv s"
  by (simp add: user_click_def enabled_toggled_priv split: option.splits)

lemma connection_ready_priv: "priv (connection_ready s c e) = priv s"
  by (simp add: connection_ready_def emit_simps split: option.splits)

lemma get_property_statuses_lock:
  "updating_ui_lock (priv (get_property_statuses s c v e)) = updating_ui_lock (priv s)"
  by (simp add: get_property_statuses_def emit_simps Let_def split: option.splits)

lemma dispose_lock:
  "updating_ui_lock (priv (presence_widget_dispose s)) = updating_ui_lock (priv s)"
  by (simp add: presence_widget_dispose_def emit_simps Let_def)

lemma dispatch_lock:
  "updating_ui_lock (priv (dispatch fires s ev)) = updating_ui_lock (priv s)"
  by (cases ev)
     (simp_all add: notify_enabled_lock notify_display_name_priv notify_presence_priv
        notify_status_message_priv status_changed_priv account_removed_priv user_click_priv
        connection_ready_priv get_property_statuses_lock dispose_lock)

lemma run_lock: "updating_ui_lock (priv (run fires s evs)) = updating_ui_lock (priv s)"
  unfolding run_def by (induction evs arbitrary: s) (simp_all add: dispatch_lock)

lemma constructed_lock:
  "updating_ui_lock (priv (presence_widget_constructed fires s a)) = updating_ui_lock (priv s)"
  by (simp add: presence_widget_constructed_def Let_def status_changed_priv
        notify_status_message_priv notify_presence_priv notify_display_name_priv
        notify_enabled_lock emit_simps)

lemma new_lock:
  "presence_widget_new fires heap p = Some s \<Longrightarrow> updating_ui_lock (priv s) = 0"
  by (auto simp: presence_widget_new_def g_object_new_presence_widget_def constructed_lock
        presence_widget_set_property_def presence_widget_init_def new_instance_def emit_simps
        Let_def PROP_ACCOUNT_def split: option.splits if_splits)

lemma example_new:
  "presence_widget_new gtk_fires example_heap (Some 1) =
     Some (g_object_new_presence_widget gtk_fires 1 example_account)"
  by (simp add: presence_widget_new_def TP_IS_ACCOUNT_def example_heap_def)

lemma set_active_locked:
  "0 < sint (updating_ui_lock (priv s)) \<Longrightarrow>
   gtk_toggle_button_set_active fires s (Some b) v =
     s\<lparr>widgets := (widgets s)(b := (widgets s b)\<lparr>active := v\<rparr>)\<rparr>"
  by (simp add: gtk_toggle_button_set_active_def Let_def enabled_toggled_locked)

lemma notify_enabled_value:
  assumes "updating_ui_lock (priv s) = 0" and "enabled_check (priv s) = Some b"
  shows "notify_enabled fires s a =
           s\<lparr>widgets := (widgets s)(b := (widgets s b)\<lparr>active := tp_account_is_enabled a\<rparr>)\<rparr>"
proof -
  let ?s1 = "s\<lparr>priv := (priv s)\<lparr>updating_ui_lock := updating_ui_lock (priv s) + 1\<rparr>\<rparr>"
  have pos: "0 < sint (updating_ui_lock (priv ?s1))"
    by (simp add: assms(1))
  have chk: "enabled_check (priv ?s1) = Some b"
    by (simp add: assms(2))
  have "notify_enabled fires s a =
          (let s2 = gtk_toggle_button_set_active fires ?s1 (Some b) (tp_account_is_enabled a)
           in s2\<lparr>priv := (priv s2)\<lparr>updating_ui_lock := updating_ui_lock (priv s2) - 1\<rparr>\<rparr>)"
    unfolding notify_enabled_def Let_def chk ..
  also have "\<dots> = s\<lparr>widgets := (widgets s)(b := (widgets s b)\<lparr>active := tp_account_is_enabled a\<rparr>)\<rparr>"
    unfolding Let_def set_active_locked [OF pos] by (simp add: assms(1))
  finally show ?thesis .
qed

lemma status_changed_effects:
  "effects (status_changed s old (tp_account_get_connection_status a) reason a) =
     effects s @ probe_request a"
  by (simp add: status_changed_def probe_request_def emit_simps split: option.splits)

lemma status_changed_widgets: "widgets (status_changed s old new reason a) = widgets s"
  by (simp add: status_changed_def emit_simps split: option.splits)

lemma notify_status_message_value:
  "status_message (priv s) = Some l \<Longrightarrow>
   notify_status_message s a =
     s\<lparr>widgets := (widgets s)(l := (widgets s l)\<lparr>label_text := displayed_message a\<rparr>)\<rparr>"
  by (simp add: notify_status_message_def gtk_label_set_text_def displayed_message_def Let_def)

lemma notify_presence_value:
  "status_icon (priv s) = Some i \<Longrightarrow>
   notify_presence s a =
     s\<lparr>widgets := (widgets s)(i := (widgets s i)
         \<lparr>icon_name := presence_icons ! presence_index (tp_account_get_presence a)\<rparr>)\<rparr>"
  by (simp add: notify_presence_def gtk_image_set_from_icon_name_def Let_def)

lemma notify_display_name_value:
  "enabled_check (priv s) = Some b \<Longrightarrow>
   notify_display_name s a =
     s\<lparr>widgets := (widgets s)(b := (widgets s b)
         \<lparr>button_label := Some (tp_account_get_display_name a)\<rparr>)\<rparr>"
  by (simp add: notify_display_name_def gtk_button_set_label_def)

lemma connect_signals_value:
  "emit e6 (emit e5 (emit e4 (emit e3 (emit e2 (emit e1 s))))) =
     s\<lparr>effects := effects s @ [e1, e2, e3, e4, e5, e6]\<rparr>"
  by (simp add: emit_def)

lemma constructed_value:
  assumes lock: "updating_ui_lock (priv s) = 0"
    and chk: "enabled_check (priv s) = Some Check_button"
    and img: "status_icon (priv s) = Some Image"
    and lbl: "status_message (priv s) = Some Label"
  shows "priv (presence_widget_constructed fires s a) = priv s"
    and "effects (presence_widget_constructed fires s a) =
           effects s @ account_signals (account (priv s)) @ probe_request a"
    and "widgets (presence_widget_constructed fires s a) =
           (widgets s)
             (Check_button := (widgets s Check_button)
                \<lparr>active := tp_account_is_enabled a,
                 button_label := Some (tp_account_get_display_name a)\<rparr>,
              Image := (widgets s Image)
                \<lparr>icon_name := presence_icons ! presence_index (tp_account_get_presence a)\<rparr>,
              Label := (widgets s Label)\<lparr>label_text := displayed_message a\<rparr>)"
proof -
  define s6 where "s6 = s\<lparr>effects := effects s @ account_signals (account (priv s))\<rparr>"
  define s7 where "s7 = notify_enabled fires s6 a"
  define s8 where "s8 = notify_display_name s7 a"
  define s9 where "s9 = notify_presence s8 a"
  define s10 where "s10 = notify_status_message s9 a"
  have c: "presence_widget_constructed fires s a =
             status_changed s10 0 (tp_account_get_connection_status a) 0 a"
    unfolding presence_widget_constructed_def Let_def connect_signals_value
      s10_def s9_def s8_def s7_def s6_def account_signals_def ..
  have p6: "priv s6 = priv s" by (simp add: s6_def)
  have v7: "s7 = s6\<lparr>widgets := (widgets s6)(Check_button := (widgets s6 Check_button)
                      \<lparr>active := tp_account_is_enabled a\<rparr>)\<rparr>"
    unfolding s7_def by (rule notify_enabled_value) (simp_all add: p6 lock chk)
  have p7: "priv s7 = priv s" by (simp add: v7 p6)
  have v8: "s8 = s7\<lparr>widgets := (widgets s7)(Check_button := (widgets s7 Check_button)
                      \<lparr>button_label := Some (tp_account_get_display_name a)\<rparr>)\<rparr>"
    unfolding s8_def by (rule notify_display_name_value) (simp add: p7 chk)
  have p8: "priv s8 = priv s" by (simp add: v8 p7)
  have v9: "s9 = s8\<lparr>widgets := (widgets s8)(Image := (widgets s8 Image)
         \<lparr>icon_name := presence_icons ! presence_index (tp_account_get_presence a)\<rparr>)\<rparr>"
    unfolding s9_def by (rule notify_presence_value) (simp add: p8 img)
  have p9: "priv s9 = priv s" by (simp add: v9 p8)
  have v10: "s10 = s9\<lparr>widgets := (widgets s9)(Label := (widgets s9 Label)
                      \<lparr>label_text := displayed_message a\<rparr>)\<rparr>"
    unfolding s10_def by (rule notify_status_message_value) (simp add: p9 lbl)
  have p10: "priv s10 = priv s" by (simp add: v10 p9)
  have e10: "effects s10 = effects s @ account_signals (account (priv s))"
    by (simp add: v10 v9 v8 v7 s6_def)
  have w6: "widgets s6 = widgets s" by (simp add: s6_def)
  have w7: "widgets s7 = (widgets s)(Check_button := (widgets s Check_button)
                      \<lparr>active := tp_account_is_enabled a\<rparr>)"
    by (subst v7) (simp add: w6)
  have w8: "widgets s8 = (widgets s)(Check_button := (widgets s Check_button)
                \<lparr>active := tp_account_is_enabled a,
                 button_label := Some (tp_account_get_display_name a)\<rparr>)"
    by (subst v8) (simp add: w7)
  have w9: "widgets s9 = (widgets s)(Check_button := (widgets s Check_button)
                \<lparr>active := tp_account_is_enabled a,
                 button_label := Some (tp_account_get_display_name a)\<rparr>,
              Image := (widgets s Image)
                \<lparr>icon_name := presence_icons ! presence_index (tp_account_get_presence a)\<rparr>)"
    by (subst v9) (simp add: w8)
  have w10: "widgets s10 = (widgets s)(Check_button := (widgets s Check_button)
                \<lparr>active := tp_account_is_enabled a,
                 button_label := Some (tp_account_get_display_name a)\<rparr>,
              Image := (widgets s Image)
                \<lparr>icon_name := presence_icons ! presence_index (tp_account_get_presence a)\<rparr>,
              Label := (widgets s Label)\<lparr>label_text := displayed_message a\<rparr>)"
    by (subst v10) (simp add: w9)
  show "priv (presence_widget_constructed fires s a) = priv s"
    by (simp add: c status_changed_priv p10)
  show "effects (presence_widget_constructed fires s a) =
           effects s @ account_signals (account (priv s)) @ probe_request a"
    by (simp add: c status_changed_effects e10)
  show "widgets (presence_widget_constructed fires s a) =
           (widgets s)
             (Check_button := (widgets s Check_button)
                \<lparr>active := tp_account_is_enabled a,
                 button_label := Some (tp_account_get_display_name a)\<rparr>,
              Image := (widgets s Image)
                \<lparr>icon_name := presence_icons ! presence_index (tp_account_get_presence a)\<rparr>,
              Label := (widgets s Label)\<lparr>label_text := displayed_message a\<rparr>)"
    by (simp only: c status_changed_widgets w10)
qed

lemma set_property_init_value:
  "presence_widget_set_property (presence_widget_init new_instance) PROP_ACCOUNT (Some r) =
     before_constructed r"
  by (simp add: presence_widget_set_property_def presence_widget_init_def new_instance_def
        before_constructed_def emit_def Let_def)

lemma g_object_new_value:
  "priv (g_object_new_presence_widget fires r a) = priv (before_constructed r)"
  "effects (g_object_new_presence_widget fires r a) =
     effects (before_constructed r) @ account_signals (Some r) @ probe_request a"
  "widgets (g_object_new_presence_widget fires r a) =
     (\<lambda>w. blank_widget)
       (Check_button := blank_widget
          \<lparr>active := tp_account_is_enabled a,
           button_label := Some (tp_account_get_display_name a)\<rparr>,
        Image := blank_widget
          \<lparr>icon_name := presence_icons ! presence_index (tp_account_get_presence a)\<rparr>,
        Label := blank_widget\<lparr>label_text := displayed_message a\<rparr>)"
proof -
  have l: "updating_ui_lock (priv (before_constructed r)) = 0"
    and c: "enabled_check (priv (before_constructed r)) = Some Check_button"
    and i: "status_icon (priv (before_constructed r)) = Some Image"
    and m: "status_message (priv (before_constructed r)) = Some Label"
    and acc: "account (priv (before_constructed r)) = Some r"
    by (simp_all add: before_constructed_def)
  show "priv (g_object_new_presence_widget fires r a) = priv (before_constructed r)"
    unfolding g_object_new_presence_widget_def set_property_init_value
    by (rule constructed_value(1) [OF l c i m])
  show "effects (g_object_new_presence_widget fires r a) =
     effects (before_constructed r) @ account_signals (Some r) @ probe_request a"
    unfolding g_object_new_presence_widget_def set_property_init_value
    using constructed_value(2) [OF l c i m, of fires a] by (simp only: acc)
  have w: "widgets (before_constructed r) =
             (\<lambda>w. blank_widget)(Label := blank_widget\<lparr>label_text := Some []\<rparr>)"
    by (simp add: before_constructed_def)
  show "widgets (g_object_new_presence_widget fires r a) =
     (\<lambda>w. blank_widget)
       (Check_button := blank_widget
          \<lparr>active := tp_account_is_enabled a,
           button_label := Some (tp_account_get_display_name a)\<rparr>,
        Image := blank_widget
          \<lparr>icon_name := presence_icons ! presence_index (tp_account_get_presence a)\<rparr>,
        Label := blank_widget\<lparr>label_text := displayed_message a\<rparr>)"
    unfolding g_object_new_presence_widget_def set_property_init_value
      constructed_value(3) [OF l c i m] w
    by (rule ext) simp
qed

section \<open>The properties of the specification\<close>

text \<open>
  Claim C1. A widget is made by \<^verbatim>\<open>presence_widget_new\<close> and then handles any events. When
  \<^verbatim>\<open>_notify_enabled\<close> runs next, the guard is positive in the state \<open>s1\<close> in which the
  toggle is written and still positive in the state \<open>s2\<close> in which the write returns; the
  toggle handler, called in \<open>s1\<close> whatever the toolkit has made of the widgets, returns it
  as it is; the write and the whole handler make no call at all, so no request to set
  the account's enabled flag; and the guard is zero again afterwards. This holds for
  every choice \<open>fires\<close> of the toolkit to deliver "toggled" during the write.
\<close>

theorem notify_enabled_never_requests_set_enabled:
  assumes new: "presence_widget_new fires heap p = Some s0"
  shows "let s = run fires s0 evs;
             s1 = s\<lparr>priv := (priv s)\<lparr>updating_ui_lock := updating_ui_lock (priv s) + 1\<rparr>\<rparr>;
             s2 = gtk_toggle_button_set_active fires s1 (enabled_check (priv s1))
                    (tp_account_is_enabled a)
         in 0 < sint (updating_ui_lock (priv s1)) \<and>
            enabled_toggled (s1\<lparr>widgets := ws\<rparr>) w = s1\<lparr>widgets := ws\<rparr> \<and>
            0 < sint (updating_ui_lock (priv s2)) \<and>
            effects s2 = effects s \<and>
            effects (notify_enabled fires s a) = effects s \<and>
            set_enabled_requests (notify_enabled fires s a) = set_enabled_requests s \<and>
            updating_ui_lock (priv (notify_enabled fires s a)) = 0"
proof -
  define s where "s = run fires s0 evs"
  define s1 where "s1 = s\<lparr>priv := (priv s)\<lparr>updating_ui_lock := updating_ui_lock (priv s) + 1\<rparr>\<rparr>"
  define s2 where "s2 = gtk_toggle_button_set_active fires s1 (enabled_check (priv s1))
                    (tp_account_is_enabled a)"
  have lock0: "updating_ui_lock (priv s) = 0"
    unfolding s_def using new by (simp add: run_lock new_lock)
  have pos1: "0 < sint (updating_ui_lock (priv s1))"
    by (simp add: s1_def lock0)
  have handler: "enabled_toggled (s1\<lparr>widgets := ws\<rparr>) w = s1\<lparr>widgets := ws\<rparr>"
    using pos1 by (simp add: enabled_toggled_locked)
  have priv2: "priv s2 = priv s1"
    by (simp add: s2_def set_active_priv)
  have eff2: "effects s2 = effects s"
    using set_active_locked_effects [OF pos1] by (simp add: s2_def s1_def)
  have ne: "notify_enabled fires s a =
              s2\<lparr>priv := (priv s2)\<lparr>updating_ui_lock := updating_ui_lock (priv s2) - 1\<rparr>\<rparr>"
    by (simp add: notify_enabled_def Let_def s2_def s1_def)
  have eff: "effects (notify_enabled fires s a) = effects s"
    by (simp add: ne eff2)
  have req: "set_enabled_requests (notify_enabled fires s a) = set_enabled_requests s"
    by (simp add: set_enabled_requests_def eff)
  have lock': "updating_ui_lock (priv (notify_enabled fires s a)) = 0"
    by (simp add: notify_enabled_lock lock0)
  from pos1 handler priv2 eff2 eff req lock' show ?thesis
    unfolding Let_def s_def [symmetric] s1_def [symmetric] s2_def [symmetric] by simp
qed

theorem notify_enabled_never_requests_set_enabled_witness:
  "presence_widget_new gtk_fires example_heap (Some 1) =
     Some (g_object_new_presence_widget gtk_fires 1 example_account) \<and>
   (let s = run gtk_fires (g_object_new_presence_widget gtk_fires 1 example_account)
              [Ev_user_click];
        s1 = s\<lparr>priv := (priv s)\<lparr>updating_ui_lock := updating_ui_lock (priv s) + 1\<rparr>\<rparr>;
        s2 = gtk_toggle_button_set_active gtk_fires s1 (enabled_check (priv s1))
               (tp_account_is_enabled example_account)
    in 0 < sint (updating_ui_lock (priv s1)) \<and>
       enabled_toggled (s1\<lparr>widgets := (\<lambda>x. blank_widget)\<rparr>) (Some Check_button) =
         s1\<lparr>widgets := (\<lambda>x. blank_widget)\<rparr> \<and>
       0 < sint (updating_ui_lock (priv s2)) \<and>
       effects s2 = effects s \<and>
       effects (notify_enabled gtk_fires s example_account) = effects s \<and>
       set_enabled_requests (notify_enabled gtk_fires s example_account) =
         set_enabled_requests s \<and>
       updating_ui_lock (priv (notify_enabled gtk_fires s example_account)) = 0)"
  using example_new notify_enabled_never_requests_set_enabled [OF example_new]
  by (rule conjI)

text \<open>
  Claim C2. When the guard is zero, \<^verbatim>\<open>_enabled_toggled\<close> makes exactly one call,
  \<^verbatim>\<open>tp_account_set_enabled_async\<close> on the widget's account with the button's current
  active state, and changes nothing else; after a click of the user that state is the
  negation of the state before the click.
\<close>

theorem enabled_toggled_issues_one_request:
  assumes "updating_ui_lock (priv s) = 0"
  shows "effects (enabled_toggled s button) =
           effects s @ [Tp_account_set_enabled_async (account (priv s))
                          (gtk_toggle_button_get_active s button)] \<and>
         length (set_enabled_requests (enabled_toggled s button)) =
           Suc (length (set_enabled_requests s)) \<and>
         priv (enabled_toggled s button) = priv s \<and>
         widgets (enabled_toggled s button) = widgets s \<and>
         (enabled_check (priv s) = Some b \<longrightarrow>
            effects (user_click s) =
              effects s @ [Tp_account_set_enabled_async (account (priv s))
                             (\<not> active (widgets s b))] \<and>
            active (widgets (user_click s) b) = (\<not> active (widgets s b)))"
  using assms
  by (simp add: enabled_toggled_def user_click_def emit_simps set_enabled_requests_def
        gtk_toggle_button_get_active_def)

theorem enabled_toggled_issues_one_request_witness:
  "updating_ui_lock (priv (g_object_new_presence_widget gtk_fires 1 example_account)) = 0 \<and>
   effects (user_click (g_object_new_presence_widget gtk_fires 1 example_account)) =
     effects (g_object_new_presence_widget gtk_fires 1 example_account) @
       [Tp_account_set_enabled_async (Some 1) False]"
proof -
  let ?s = "g_object_new_presence_widget gtk_fires 1 example_account"
  have lock: "updating_ui_lock (priv ?s) = 0"
    by (simp add: g_object_new_value(1) before_constructed_def)
  have check: "enabled_check (priv ?s) = Some Check_button"
    by (simp add: g_object_new_value(1) before_constructed_def)
  have acc: "account (priv ?s) = Some 1"
    by (simp add: g_object_new_value(1) before_constructed_def)
  have act: "active (widgets ?s Check_button)"
    by (simp add: g_object_new_value(3) example_account_def)
  from enabled_toggled_issues_one_request [OF lock, of "Some Check_button" Check_button]
    lock check acc act
  show ?thesis by simp
qed

text \<open>
  Claim C3. \<^verbatim>\<open>_notify_status_message\<close> sets the label to the default message of the
  account's presence when the account's status message is empty, and to the account's
  status message itself otherwise; no other widget, no private field and no call changes.
\<close>

theorem notify_status_message_displays:
  assumes "status_message (priv s) = Some l"
  shows "label_text (widgets (notify_status_message s a) l) =
           (if tp_account_get_status_message a = []
            then default_messages ! presence_index (tp_account_get_presence a)
            else Some (tp_account_get_status_message a)) \<and>
         (\<forall>w. w \<noteq> l \<longrightarrow> widgets (notify_status_message s a) w = widgets s w) \<and>
         priv (notify_status_message s a) = priv s \<and>
         effects (notify_status_message s a) = effects s"
  using assms by (simp add: notify_status_message_def gtk_label_set_text_def Let_def)

theorem notify_status_message_displays_witness:
  "status_message (priv (presence_widget_init new_instance)) = Some Label \<and>
   label_text (widgets (notify_status_message (presence_widget_init new_instance)
                          example_account) Label) = Some ''Away'' \<and>
   label_text (widgets (notify_status_message (presence_widget_init new_instance)
                          (example_account\<lparr>tp_account_get_status_message := ''back soon''\<rparr>))
                 Label) = Some ''back soon''"
proof -
  have l: "status_message (priv (presence_widget_init new_instance)) = Some Label"
    by (simp add: presence_widget_init_def new_instance_def Let_def emit_def)
  from notify_status_message_displays [OF l, of example_account]
    notify_status_message_displays [OF l,
      of "example_account\<lparr>tp_account_get_status_message := ''back soon''\<rparr>"] l
  show ?thesis by (simp add: example_account_def default_messages_def)
qed

text \<open>
  Claim C4. With a connection and the new status Connected, \<^verbatim>\<open>_status_changed\<close> asks
  once for readiness; \<^verbatim>\<open>_connection_ready\<close> without error, on a connection with the
  simple-presence interface, makes exactly one \<^verbatim>\<open>Get\<close> call for "Statuses" and changes
  nothing else. The fetch ends in a status-spec map or in an error. When it brings the
  map at \<open>t\<close>, the cached reference becomes \<open>t\<close>: the old reference, if there is one, is
  released once, one reference is taken on the new map, and nothing else changes. When
  it brings an error, the private fields, the cache among them, and the widgets are as
  before the call, and the error's message is logged.
\<close>

theorem statuses_probe:
  "(tp_account_get_connection a = Some conn \<longrightarrow>
      effects (status_changed s old_status TP_CONNECTION_STATUS_CONNECTED reason a) =
        effects s @ [Tp_connection_call_when_ready conn CB_connection_ready]) \<and>
   (tp_proxy_has_interface conn TP_IFACE_CONNECTION_INTERFACE_SIMPLE_PRESENCE \<longrightarrow>
      connection_ready s conn None =
        s\<lparr>effects := effects s @
             [Tp_cli_dbus_properties_call_get conn
                TP_IFACE_CONNECTION_INTERFACE_SIMPLE_PRESENCE ''Statuses''
                CB_get_property_statuses]\<rparr>) \<and>
   get_property_statuses s conn (Some (Holds_simple_status_spec_map t)) None =
     s\<lparr>priv := (priv s)\<lparr>statuses := Some t\<rparr>,
       effects := effects s @
         (case statuses (priv s) of None \<Rightarrow> [] | Some old \<Rightarrow> [G_hash_table_unref old]) @
         [G_hash_table_ref (Some t)]\<rparr> \<and>
   get_property_statuses s conn v (Some e) = s\<lparr>effects := effects s @ [G_warning (message e)]\<rparr>"
  by (simp add: status_changed_def connection_ready_def get_property_statuses_def emit_def
        Let_def split: option.splits)

theorem statuses_probe_witness:
  "tp_account_get_connection example_account = Some example_connection \<and>
   tp_proxy_has_interface example_connection TP_IFACE_CONNECTION_INTERFACE_SIMPLE_PRESENCE \<and>
   statuses (priv example_cached) = Some 7 \<and>
   effects (status_changed example_cached 1 TP_CONNECTION_STATUS_CONNECTED 0 example_account) =
     effects example_cached @ [Tp_connection_call_when_ready example_connection CB_connection_ready] \<and>
   effects (connection_ready example_cached example_connection None) =
     effects example_cached @
       [Tp_cli_dbus_properties_call_get example_connection
          TP_IFACE_CONNECTION_INTERFACE_SIMPLE_PRESENCE ''Statuses'' CB_get_property_statuses] \<and>
   statuses (priv (get_property_statuses example_cached example_connection
                     (Some (Holds_simple_status_spec_map 9)) None)) = Some 9 \<and>
   effects (get_property_statuses example_cached example_connection
              (Some (Holds_simple_status_spec_map 9)) None) =
     effects example_cached @ [G_hash_table_unref 7, G_hash_table_ref (Some 9)] \<and>
   priv (get_property_statuses example_cached example_connection None
           (Some \<lparr>message = ''no reply''\<rparr>)) = priv example_cached \<and>
   effects (get_property_statuses example_cached example_connection None
              (Some \<lparr>message = ''no reply''\<rparr>)) = effects example_cached @ [G_warning ''no reply'']"
proof -
  have c: "tp_account_get_connection example_account = Some example_connection"
    by (simp add: example_account_def)
  have i: "tp_proxy_has_interface example_connection
             TP_IFACE_CONNECTION_INTERFACE_SIMPLE_PRESENCE"
    by (simp add: tp_proxy_has_interface_def example_connection_def)
  have old: "statuses (priv example_cached) = Some 7"
    by (simp add: example_cached_def get_property_statuses_def before_constructed_def emit_def)
  from statuses_probe [of example_account example_connection example_cached 1 0 9 None
      "\<lparr>message = ''no reply''\<rparr>"] c i old
  show ?thesis by simp
qed

text \<open>
  Claim C5. \<^verbatim>\<open>_status_changed\<close> does nothing when the account has no connection. With a
  connection it asks the connection to become ready, once, exactly when the new status
  is Connected or Disconnected; it changes no private field and no widget.
\<close>

theorem status_changed_requests_ready:
  "(tp_account_get_connection a = None \<longrightarrow> status_changed s old_status new_status reason a = s) \<and>
   (tp_account_get_connection a = Some conn \<longrightarrow>
      (effects (status_changed s old_status new_status reason a) =
         (if new_status = TP_CONNECTION_STATUS_CONNECTED \<or>
             new_status = TP_CONNECTION_STATUS_DISCONNECTED
          then effects s @ [Tp_connection_call_when_ready conn CB_connection_ready]
          else effects s)) \<and>
      ((Tp_connection_call_when_ready conn CB_connection_ready
          \<in> set (drop (length (effects s))
                   (effects (status_changed s old_status new_status reason a)))) =
       (new_status = TP_CONNECTION_STATUS_CONNECTED \<or>
        new_status = TP_CONNECTION_STATUS_DISCONNECTED))) \<and>
   priv (status_changed s old_status new_status reason a) = priv s \<and>
   widgets (status_changed s old_status new_status reason a) = widgets s"
  by (simp add: status_changed_def emit_simps split: option.splits)

theorem status_changed_requests_ready_witness:
  "status_changed new_instance 1 TP_CONNECTION_STATUS_CONNECTED 0
     (example_account\<lparr>tp_account_get_connection := None\<rparr>) = new_instance \<and>
   effects (status_changed new_instance 1 TP_CONNECTION_STATUS_DISCONNECTED 0 example_account) =
     [Tp_connection_call_when_ready example_connection CB_connection_ready] \<and>
   effects (status_changed new_instance 0 TP_CONNECTION_STATUS_CONNECTING 0 example_account) = []"
  using status_changed_requests_ready [of "example_account\<lparr>tp_account_get_connection := None\<rparr>"
          new_instance 1 TP_CONNECTION_STATUS_CONNECTED 0 example_connection]
        status_changed_requests_ready [of example_account new_instance 1
          TP_CONNECTION_STATUS_DISCONNECTED 0 example_connection]
        status_changed_requests_ready [of example_account new_instance 0
          TP_CONNECTION_STATUS_CONNECTING 0 example_connection]
  by (simp add: example_account_def new_instance_def TP_CONNECTION_STATUS_CONNECTED_def
        TP_CONNECTION_STATUS_DISCONNECTED_def TP_CONNECTION_STATUS_CONNECTING_def)

text \<open>
  Claim C6. Both tables have \<^verbatim>\<open>NUM_TP_CONNECTION_PRESENCE_TYPES\<close> elements; the index of
  each of the nine presence types is within them, and the element there is a string, not
  NULL, in the icon table and in the table of default messages.
\<close>

theorem presence_tables_total:
  "length presence_icons = NUM_TP_CONNECTION_PRESENCE_TYPES \<and>
   length default_messages = NUM_TP_CONNECTION_PRESENCE_TYPES \<and>
   presence_index p < NUM_TP_CONNECTION_PRESENCE_TYPES \<and>
   (\<exists>icon. presence_icons ! presence_index p = Some icon) \<and>
   (\<exists>msg. default_messages ! presence_index p = Some msg)"
  by (cases p)
     (simp_all add: presence_icons_def default_messages_def NUM_TP_CONNECTION_PRESENCE_TYPES_def)

theorem presence_tables_total_witness:
  "presence_index PRESENCE_TYPE_ERROR < NUM_TP_CONNECTION_PRESENCE_TYPES \<and>
   presence_icons ! presence_index PRESENCE_TYPE_ERROR = Some ''empathy-offline'' \<and>
   default_messages ! presence_index PRESENCE_TYPE_ERROR = Some ''Error''"
  using presence_tables_total [of PRESENCE_TYPE_ERROR]
  by (simp add: presence_icons_def default_messages_def)

text \<open>
  Claim C7. \<^verbatim>\<open>presence_widget_new\<close> on a NULL account returns NULL: no instance is made,
  so nothing is initialised and nothing is connected.
\<close>

theorem presence_widget_new_null_refused:
  "presence_widget_new fires heap None = None"
  by (simp add: presence_widget_new_def TP_IS_ACCOUNT_def)

theorem presence_widget_new_null_refused_witness:
  "presence_widget_new gtk_fires example_heap None = None \<and>
   presence_widget_new gtk_fires example_heap (Some 1) \<noteq> None"
  using presence_widget_new_null_refused [of gtk_fires example_heap] example_new
  by simp

text \<open>
  Claim C8. In every state, also after any events, \<^verbatim>\<open>_account_removed\<close> calls
  \<^verbatim>\<open>gtk_widget_destroy\<close> on the widget, and does only that.
\<close>

theorem account_removed_destroys:
  "effects (account_removed s a) = effects s @ [Gtk_widget_destroy] \<and>
   effects (dispatch fires (run fires s evs) (Ev_removed a)) =
     effects (run fires s evs) @ [Gtk_widget_destroy] \<and>
   priv (account_removed s a) = priv s \<and>
   widgets (account_removed s a) = widgets s"
  by (simp add: account_removed_def emit_simps)

theorem account_removed_destroys_witness:
  "effects (account_removed new_instance example_account) = [Gtk_widget_destroy]"
  using account_removed_destroys [of new_instance example_account gtk_fires "[]"]
  by (simp add: new_instance_def)

text \<open>
  Claim C9. \<^verbatim>\<open>presence_widget_constructed\<close> connects the six signals, runs the four
  field-sync handlers once each, and last calls \<^verbatim>\<open>_status_changed\<close> with old status 0,
  reason 0 and the account's current connection status as the new status. So a widget
  made by \<^verbatim>\<open>presence_widget_new\<close> shows the account's fields, and has asked the connection
  to become ready when the account has a connection whose status is Connected or
  Disconnected, without any status change.
\<close>

theorem constructed_primes_then_status_changed:
  "presence_widget_constructed fires s a =
     status_changed
       (notify_status_message
          (notify_presence
             (notify_display_name
                (notify_enabled fires
                   (s\<lparr>effects := effects s @ account_signals (account (priv s))\<rparr>) a) a) a) a)
       0 (tp_account_get_connection_status a) 0 a \<and>
   (heap r = Some a \<longrightarrow>
      presence_widget_new fires heap (Some r) = Some (g_object_new_presence_widget fires r a) \<and>
      effects (g_object_new_presence_widget fires r a) =
        [G_signal_connect_swapped (Widget_object (Some Check_button)) ''toggled''
           CB_enabled_toggled,
         G_object_ref r] @
        account_signals (Some r) @
        (case tp_account_get_connection a of
           None \<Rightarrow> []
         | Some conn \<Rightarrow>
             if tp_account_get_connection_status a = TP_CONNECTION_STATUS_CONNECTED \<or>
                tp_account_get_connection_status a = TP_CONNECTION_STATUS_DISCONNECTED
             then [Tp_connection_call_when_ready conn CB_connection_ready]
             else []) \<and>
      widgets (g_object_new_presence_widget fires r a) Check_button =
        blank_widget\<lparr>active := tp_account_is_enabled a,
                      button_label := Some (tp_account_get_display_name a)\<rparr> \<and>
      widgets (g_object_new_presence_widget fires r a) Image =
        blank_widget\<lparr>icon_name :=
          presence_icons ! presence_index (tp_account_get_presence a)\<rparr> \<and>
      widgets (g_object_new_presence_widget fires r a) Label =
        blank_widget\<lparr>label_text :=
          (if tp_account_get_status_message a = []
           then default_messages ! presence_index (tp_account_get_presence a)
           else Some (tp_account_get_status_message a))\<rparr>)"
proof (intro conjI impI)
  show "presence_widget_constructed fires s a =
     status_changed
       (notify_status_message
          (notify_presence
             (notify_display_name
                (notify_enabled fires
                   (s\<lparr>effects := effects s @ account_signals (account (priv s))\<rparr>) a) a) a) a)
       0 (tp_account_get_connection_status a) 0 a"
    unfolding presence_widget_constructed_def Let_def connect_signals_value account_signals_def ..
next
  assume "heap r = Some a"
  then show "presence_widget_new fires heap (Some r) =
               Some (g_object_new_presence_widget fires r a)"
    by (simp add: presence_widget_new_def TP_IS_ACCOUNT_def)
next
  show "effects (g_object_new_presence_widget fires r a) =
        [G_signal_connect_swapped (Widget_object (Some Check_button)) ''toggled''
           CB_enabled_toggled,
         G_object_ref r] @
        account_signals (Some r) @
        (case tp_account_get_connection a of
           None \<Rightarrow> []
         | Some conn \<Rightarrow>
             if tp_account_get_connection_status a = TP_CONNECTION_STATUS_CONNECTED \<or>
                tp_account_get_connection_status a = TP_CONNECTION_STATUS_DISCONNECTED
             then [Tp_connection_call_when_ready conn CB_connection_ready]
             else [])"
    unfolding g_object_new_value(2) probe_request_def by (simp add: before_constructed_def)
next
  show "widgets (g_object_new_presence_widget fires r a) Check_button =
        blank_widget\<lparr>active := tp_account_is_enabled a,
                      button_label := Some (tp_account_get_display_name a)\<rparr>"
    unfolding g_object_new_value(3) by simp
next
  show "widgets (g_object_new_presence_widget fires r a) Image =
        blank_widget\<lparr>icon_name :=
          presence_icons ! presence_index (tp_account_get_presence a)\<rparr>"
    unfolding g_object_new_value(3) by simp
next
  show "widgets (g_object_new_presence_widget fires r a) Label =
        blank_widget\<lparr>label_text :=
          (if tp_account_get_status_message a = []
           then default_messages ! presence_index (tp_account_get_presence a)
           else Some (tp_account_get_status_message a))\<rparr>"
    unfolding g_object_new_value(3) displayed_message_def by simp
qed

theorem constructed_primes_then_status_changed_witness:
  "example_heap 1 = Some example_account \<and>
   effects (g_object_new_presence_widget gtk_fires 1 example_account) =
     [G_signal_connect_swapped (Widget_object (Some Check_button)) ''toggled'' CB_enabled_toggled,
      G_object_ref 1,
      G_signal_connect_swapped (Account_object (Some 1)) ''notify::enabled'' CB_notify_enabled,
      G_signal_connect_swapped (Account_object (Some 1)) ''notify::display-name''
        CB_notify_display_name,
      G_signal_connect_swapped (Account_object (Some 1)) ''notify::presence'' CB_notify_presence,
      G_signal_connect_swapped (Account_object (Some 1)) ''notify::status-message''
        CB_notify_status_message,
      G_signal_connect_swapped (Account_object (Some 1)) ''status-changed'' CB_status_changed,
      G_signal_connect_swapped (Account_object (Some 1)) ''removed'' CB_account_removed,
      Tp_connection_call_when_ready example_connection CB_connection_ready] \<and>
   label_text (widgets (g_object_new_presence_widget gtk_fires 1 example_account) Label) =
     Some ''Away''"
proof -
  have h: "example_heap 1 = Some example_account"
    by (simp add: example_heap_def)
  have conn: "tp_account_get_connection example_account = Some example_connection"
    and st: "tp_account_get_connection_status example_account = TP_CONNECTION_STATUS_CONNECTED"
    and msg: "tp_account_get_status_message example_account = []"
    and pres: "tp_account_get_presence example_account = PRESENCE_TYPE_AWAY"
    by (simp_all add: example_account_def)
  from constructed_primes_then_status_changed [of gtk_fires new_instance example_account
      example_heap 1] h
  show ?thesis
    by (simp add: conn st msg pres account_signals_def default_messages_def blank_widget_def)
qed

text \<open>
  Claim C10. \<^verbatim>\<open>presence_widget_dispose\<close> releases the account reference, sets that field to
  NULL and chains to the parent class; every other private field keeps its value, the
  cached status map among them, and no \<^verbatim>\<open>g_hash_table_unref\<close> is called.
\<close>

theorem dispose_releases_only_account:
  "priv (presence_widget_dispose s) = (priv s)\<lparr>account := None\<rparr> \<and>
   statuses (priv (presence_widget_dispose s)) = statuses (priv s) \<and>
   widgets (presence_widget_dispose s) = widgets s \<and>
   effects (presence_widget_dispose s) =
     effects s @ [G_object_unref (account (priv s)), Parent_class_dispose] \<and>
   G_hash_table_unref t \<notin> set (drop (length (effects s)) (effects (presence_widget_dispose s)))"
  by (simp add: presence_widget_dispose_def emit_simps Let_def)

theorem dispose_releases_only_account_witness:
  "statuses (priv example_cached) = Some 7 \<and>
   priv (presence_widget_dispose example_cached) =
     \<lparr>account = None, statuses = Some 7, enabled_check = Some Check_button,
      status_icon = Some Image, status_message = Some Label, updating_ui_lock = 0\<rparr> \<and>
   effects (presence_widget_dispose example_cached) =
     effects example_cached @ [G_object_unref (Some 1), Parent_class_dispose]"
  using dispose_releases_only_account [of example_cached 7]
  by (simp add: example_cached_def get_property_statuses_def before_constructed_def emit_def)

end
